theory Spec2Isabelle
  imports Complex_Main
begin

section \<open>JavaScript values\<close>

text \<open>
  The game state of \<^verbatim>\<open>src/frontend/src/App.js\<close> is built by the code itself
  (\<^verbatim>\<open>createEmptyGameState\<close>, \<^verbatim>\<open>handleSquareClick\<close>) or taken from a JSON document
  (\<^verbatim>\<open>loadLatest\<close>), so a cell of the board can hold any value that JSON parsing
  produces. The values are modelled as the language has them.

  A number is an IEEE double. The code only tests numbers for truthiness, compares them
  with \<^verbatim>\<open>===\<close> and asks \<^verbatim>\<open>Number.isFinite\<close>; for these a finite double is its
  numeric value (\<^verbatim>\<open>-0 === 0\<close>, and both are falsy), so a finite double is a rational.
\<close>

datatype jsnum = Finite rat | PosInf | NegInf | NaN

datatype jsval =
    Undefined
  | Null
  | Bool bool
  | Num jsnum
  | Str string
  | Arr "jsval list"
  | Obj "(string \<times> jsval) list"

text \<open>\<^verbatim>\<open>Boolean(v)\<close>, the test of \<^verbatim>\<open>if (v)\<close>, \<^verbatim>\<open>!v\<close>, \<^verbatim>\<open>v && ...\<close>, \<^verbatim>\<open>v || ...\<close>.\<close>

fun truthy :: "jsval \<Rightarrow> bool" where
  "truthy Undefined = False"
| "truthy Null = False"
| "truthy (Bool b) = b"
| "truthy (Num n) = (n \<noteq> Finite 0 \<and> n \<noteq> NaN)"
| "truthy (Str s) = (s \<noteq> [])"
| "truthy (Arr xs) = True"
| "truthy (Obj kvs) = True"

text \<open>
  \<^verbatim>\<open>v === w\<close>. On arrays and objects \<^verbatim>\<open>===\<close> compares identity, not contents. The
  code compares the cells of one board at different indices only, and every array or
  object in a board is a heap object of its own (a board is \<^verbatim>\<open>Array(9).fill(null)\<close>,
  the result of JSON parsing, or a copy of a board with a string stored into it), so the
  comparison of two arrays or two objects is false.
\<close>

fun strict_eq :: "jsval \<Rightarrow> jsval \<Rightarrow> bool" where
  "strict_eq Undefined Undefined = True"
| "strict_eq Null Null = True"
| "strict_eq (Bool a) (Bool b) = (a = b)"
| "strict_eq (Num x) (Num y) = (x = y \<and> x \<noteq> NaN)"
| "strict_eq (Str s) (Str t) = (s = t)"
| "strict_eq _ _ = False"

text \<open>\<^verbatim>\<open>xs[i]\<close> on an array: \<^verbatim>\<open>undefined\<close> out of range.\<close>

definition js_get :: "jsval list \<Rightarrow> nat \<Rightarrow> jsval" where
  "js_get xs i = (if i < length xs then xs ! i else Undefined)"

text \<open>
  \<^verbatim>\<open>xs[i] = v\<close> on an array: beyond the end the array grows, and the indices in between
  are holes, which read as \<^verbatim>\<open>undefined\<close> and which \<^verbatim>\<open>filter\<close> skips as it skips any
  falsy element.
\<close>

definition js_set :: "jsval list \<Rightarrow> nat \<Rightarrow> jsval \<Rightarrow> jsval list" where
  "js_set xs i v =
     (if i < length xs then xs[i := v]
      else xs @ replicate (i - length xs) Undefined @ [v])"

text \<open>
  \<^verbatim>\<open>o.k\<close> for a truthy \<^verbatim>\<open>o\<close> and one of the names the code reads (\<^verbatim>\<open>board\<close>,
  \<^verbatim>\<open>next_player\<close>, \<^verbatim>\<open>winner\<close>, \<^verbatim>\<open>is_draw\<close>, \<^verbatim>\<open>moves\<close>, \<^verbatim>\<open>updated_at\<close>): the
  own property of a parsed object, \<^verbatim>\<open>undefined\<close> when the object has none and on
  every other truthy value (no prototype defines these names). The code reads a property
  of \<^verbatim>\<open>loaded\<close> only behind \<^verbatim>\<open>loaded &&\<close>, so the read never throws. An object
  is the list of its own properties, each name once, as JSON parsing leaves it.
\<close>

definition js_prop :: "jsval \<Rightarrow> string \<Rightarrow> jsval" where
  "js_prop v k =
     (case v of
        Obj kvs \<Rightarrow> (case map_of kvs k of Some w \<Rightarrow> w | None \<Rightarrow> Undefined)
      | _ \<Rightarrow> Undefined)"

text \<open>\<^verbatim>\<open>a ?? b\<close>.\<close>

definition nullish :: "jsval \<Rightarrow> bool" where
  "nullish v = (v = Null \<or> v = Undefined)"

text \<open>
  The string a template literal \<^verbatim>\<open>${v}\<close> inserts. The conversion of a number (the
  shortest decimal that reads back as the same double) and of an array or object is the
  runtime's and is taken as the parameter \<open>ts\<close>.
\<close>

definition js_toString :: "(jsval \<Rightarrow> string) \<Rightarrow> jsval \<Rightarrow> string" where
  "js_toString ts v =
     (case v of
        Str s \<Rightarrow> s
      | Bool b \<Rightarrow> (if b then ''true'' else ''false'')
      | Null \<Rightarrow> ''null''
      | Undefined \<Rightarrow> ''undefined''
      | _ \<Rightarrow> ts v)"

section \<open>The game state\<close>

text \<open>
  The object held by \<^verbatim>\<open>useState\<close>. \<^verbatim>\<open>nextPlayer\<close> and \<^verbatim>\<open>status\<close> are always strings,
  \<^verbatim>\<open>isDraw\<close> always a boolean and \<^verbatim>\<open>moves\<close> always a finite number: the three places
  that build a state write nothing else there. \<^verbatim>\<open>winner\<close> and \<^verbatim>\<open>updatedAt\<close> can be
  whatever a snapshot carried.
\<close>

record game =
  board :: "jsval list"
  nextPlayer :: string
  status :: string
  winner :: jsval
  isDraw :: bool
  moves :: rat
  updatedAt :: jsval

text \<open>
  \<^verbatim>\<open>createEmptyGameState\<close>; \<open>now\<close> is what \<^verbatim>\<open>new Date().toISOString()\<close> returns at
  the call.
\<close>

definition createEmptyGameState :: "string \<Rightarrow> game" where
  "createEmptyGameState now =
     \<lparr> board = replicate 9 Null,
       nextPlayer = ''X'',
       status = ''Next player: X'',
       winner = Null,
       isDraw = False,
       moves = 0,
       updatedAt = Str now \<rparr>"

section \<open>The evaluator\<close>

definition lines :: "(nat \<times> nat \<times> nat) list" where
  "lines =
     [(0, 1, 2), (3, 4, 5), (6, 7, 8),
      (0, 3, 6), (1, 4, 7), (2, 5, 8),
      (0, 4, 8), (2, 4, 6)]"

text \<open>
  The \<^verbatim>\<open>for ... of\<close> loop of \<^verbatim>\<open>calculateWinner\<close> over the lines still to examine
  (\<open>bd\<close> is the source's \<^verbatim>\<open>board\<close>, a name the state's field has here).
\<close>

fun scanLines :: "jsval list \<Rightarrow> (nat \<times> nat \<times> nat) list \<Rightarrow> jsval" where
  "scanLines bd [] = Null"
| "scanLines bd ((a, b, c) # rest) =
     (let v = js_get bd a in
      if truthy v \<and> strict_eq v (js_get bd b) \<and> strict_eq v (js_get bd c) then v
      else scanLines bd rest)"

definition calculateWinner :: "jsval list \<Rightarrow> jsval" where
  "calculateWinner bd = scanLines bd lines"

text \<open>The object \<^verbatim>\<open>deriveStatus\<close> returns.\<close>

record derived =
  d_winner :: jsval
  d_isDraw :: bool
  d_moves :: nat
  d_status :: string

definition deriveStatus :: "(jsval \<Rightarrow> string) \<Rightarrow> jsval list \<Rightarrow> string \<Rightarrow> derived" where
  "deriveStatus ts bd np =
     (let w = calculateWinner bd;
          n = length (filter truthy bd);
          dr = (\<not> truthy w \<and> n = 9)
      in if truthy w then
           \<lparr> d_winner = w, d_isDraw = False, d_moves = n,
             d_status = ''Winner: '' @ js_toString ts w \<rparr>
         else if dr then
           \<lparr> d_winner = Null, d_isDraw = True, d_moves = n, d_status = ''Draw'' \<rparr>
         else
           \<lparr> d_winner = Null, d_isDraw = False, d_moves = n,
             d_status = ''Next player: '' @ np \<rparr>)"

section \<open>The optional backend\<close>

text \<open>
  A \<^verbatim>\<open>throw\<close>, or the rejection of an awaited promise, is the left summand of the
  result.
\<close>

datatype js_error = Thrown

text \<open>
  What \<^verbatim>\<open>fetch\<close> resolves to: the \<^verbatim>\<open>ok\<close> flag of the response and the outcome of
  \<^verbatim>\<open>res.json()\<close>, which rejects when the body is not JSON.
\<close>

record response =
  ok :: bool
  json :: "js_error + jsval"

text \<open>\<^verbatim>\<open>try { body } catch (_e) { handler }\<close>.\<close>

definition try_catch :: "js_error + 'a \<Rightarrow> (js_error \<Rightarrow> js_error + 'a) \<Rightarrow> js_error + 'a" where
  "try_catch body handler = (case body of Inl e \<Rightarrow> handler e | Inr v \<Rightarrow> Inr v)"

text \<open>\<^verbatim>\<open>raw.replace(/\/+$/, "")\<close>: the string without its trailing slashes.\<close>

definition strip_trailing_slashes :: "string \<Rightarrow> string" where
  "strip_trailing_slashes raw = rev (dropWhile (\<lambda>ch. ch = CHR ''/'') (rev raw))"

text \<open>
  The part of \<^verbatim>\<open>useOptionalGameApi\<close> that settles whether the backend is used. An
  environment variable is a string or absent; \<^verbatim>\<open>||\<close> passes over an absent and over an
  empty one.
\<close>

record api =
  enabled :: bool
  baseUrl :: string

definition js_or_string :: "string option \<Rightarrow> string \<Rightarrow> string" where
  "js_or_string a b = (case a of Some s \<Rightarrow> (if s \<noteq> [] then s else b) | None \<Rightarrow> b)"

definition useOptionalGameApi :: "string option \<Rightarrow> string option \<Rightarrow> api" where
  "useOptionalGameApi backend_url api_base =
     (let raw = js_or_string backend_url (js_or_string api_base []);
          url = strip_trailing_slashes raw
      in \<lparr> enabled = (url \<noteq> []), baseUrl = url \<rparr>)"

text \<open>
  \<^verbatim>\<open>loadLatest\<close>. \<open>fetch\<close> is the network's answer to the GET request for a URL: a
  rejection or a response. The result is what the returned promise settles to.
\<close>

definition loadLatest :: "api \<Rightarrow> (string \<Rightarrow> js_error + response) \<Rightarrow> js_error + jsval" where
  "loadLatest a fetch =
     (if \<not> enabled a then Inr Null
      else try_catch
        (case fetch (baseUrl a @ ''/api/games/latest'') of
           Inl e \<Rightarrow> Inl e
         | Inr res \<Rightarrow> (if \<not> ok res then Inr Null else json res))
        (\<lambda>e. Inr Null))"

section \<open>The application\<close>

text \<open>
  The state is replaced by \<^verbatim>\<open>setGame\<close>; each handler is a function from the state it
  sees to the state after it, the same state where it returns before \<^verbatim>\<open>setGame\<close>.
  \<^verbatim>\<open>setApiStatus\<close> feeds the connectivity label only and is left out.

  The branch of the load effect taken once \<^verbatim>\<open>loaded\<close> has arrived (source lines
  154 to 170).
\<close>

definition applyLoaded :: "(jsval \<Rightarrow> string) \<Rightarrow> string \<Rightarrow> game \<Rightarrow> jsval \<Rightarrow> game" where
  "applyLoaded ts now g loaded =
     (if \<not> truthy loaded then g
      else case js_prop loaded ''board'' of
        Arr bd \<Rightarrow>
          (if length bd \<noteq> 9 then g
           else
             let np = (if strict_eq (js_prop loaded ''next_player'') (Str ''O'')
                       then ''O'' else ''X'');
                 d = deriveStatus ts bd np
             in \<lparr> board = bd,
                  nextPlayer = np,
                  status = d_status d,
                  winner = (if nullish (js_prop loaded ''winner'') then d_winner d
                            else js_prop loaded ''winner''),
                  isDraw = truthy (if nullish (js_prop loaded ''is_draw'')
                                   then Bool (d_isDraw d)
                                   else js_prop loaded ''is_draw''),
                  moves = (case js_prop loaded ''moves'' of
                             Num (Finite r) \<Rightarrow> r
                           | _ \<Rightarrow> of_nat (d_moves d)),
                  updatedAt = (if truthy (js_prop loaded ''updated_at'')
                               then js_prop loaded ''updated_at'' else Str now) \<rparr>)
      | _ \<Rightarrow> g)"

text \<open>
  The load effect \<^verbatim>\<open>run\<close>; \<open>cancelled\<close> says whether the component was torn down
  before the load settled.
\<close>

definition run ::
  "(jsval \<Rightarrow> string) \<Rightarrow> string \<Rightarrow> api \<Rightarrow> (string \<Rightarrow> js_error + response) \<Rightarrow> bool \<Rightarrow> game
     \<Rightarrow> js_error + game" where
  "run ts now a fetch cancelled g =
     (if \<not> enabled a then Inr g
      else case loadLatest a fetch of
        Inl e \<Rightarrow> Inl e
      | Inr loaded \<Rightarrow> (if cancelled then Inr g else Inr (applyLoaded ts now g loaded)))"

text \<open>
  \<^verbatim>\<open>handleSquareClick\<close>; the index is the position of the clicked button in
  \<^verbatim>\<open>game.board.map\<close>, a natural number.
\<close>

definition handleSquareClick :: "(jsval \<Rightarrow> string) \<Rightarrow> string \<Rightarrow> game \<Rightarrow> nat \<Rightarrow> game" where
  "handleSquareClick ts now g index =
     (let canPlay = (\<not> truthy (winner g) \<and> \<not> isDraw g) in
      if \<not> canPlay then g
      else if truthy (js_get (board g) index) then g
      else
        let nextBoard = js_set (board g) index (Str (nextPlayer g));
            np = (if nextPlayer g = ''X'' then ''O'' else ''X'');
            d = deriveStatus ts nextBoard np
        in \<lparr> board = nextBoard,
             nextPlayer = np,
             status = d_status d,
             winner = d_winner d,
             isDraw = d_isDraw d,
             moves = of_nat (d_moves d),
             updatedAt = Str now \<rparr>)"

definition handleReset :: "string \<Rightarrow> game \<Rightarrow> game" where
  "handleReset now g = createEmptyGameState now"

section \<open>Notions the properties are stated with\<close>

text \<open>
  A line \<open>(a, b, c)\<close> of a board holds three equal non-empty marks: the cell at \<open>a\<close> is
  non-empty and the cells at \<open>b\<close> and \<open>c\<close> equal it. Non-empty is what the code tests a
  cell for wherever it asks whether the cell is taken (\<^verbatim>\<open>if (game.board[index])\<close>,
  \<^verbatim>\<open>board.filter(Boolean)\<close>, \<^verbatim>\<open>value ? "is-filled" : ""\<close>): the cell is truthy. On a
  board of \<^verbatim>\<open>"X"\<close>, \<^verbatim>\<open>"O"\<close> and \<^verbatim>\<open>null\<close> that is: the cell is not \<^verbatim>\<open>null\<close>.
\<close>

definition line_filled :: "jsval list \<Rightarrow> nat \<times> nat \<times> nat \<Rightarrow> bool" where
  "line_filled bd l =
     (case l of (a, b, c) \<Rightarrow>
        truthy (js_get bd a) \<and> strict_eq (js_get bd a) (js_get bd b)
          \<and> strict_eq (js_get bd a) (js_get bd c))"

text \<open>The mark of a line: its first cell.\<close>

definition line_mark :: "jsval list \<Rightarrow> nat \<times> nat \<times> nat \<Rightarrow> jsval" where
  "line_mark bd l = (case l of (a, b, c) \<Rightarrow> js_get bd a)"

text \<open>
  The invariant of the data model: \<^verbatim>\<open>winner\<close> and \<^verbatim>\<open>isDraw\<close> are not both set, both
  are what \<^verbatim>\<open>deriveStatus\<close> computes from the board, and \<^verbatim>\<open>moves\<close> counts the
  non-empty cells.
\<close>

definition invariant :: "(jsval \<Rightarrow> string) \<Rightarrow> game \<Rightarrow> bool" where
  "invariant ts g =
     (\<not> (truthy (winner g) \<and> isDraw g)
      \<and> winner g = d_winner (deriveStatus ts (board g) (nextPlayer g))
      \<and> isDraw g = d_isDraw (deriveStatus ts (board g) (nextPlayer g))
      \<and> moves g = of_nat (length (filter truthy (board g))))"

text \<open>
  A snapshot agrees with its own board: each of its fields \<^verbatim>\<open>winner\<close>, \<^verbatim>\<open>is_draw\<close>
  and \<^verbatim>\<open>moves\<close> that the load effect would take over (a \<^verbatim>\<open>winner\<close> or \<^verbatim>\<open>is_draw\<close>
  that is neither \<^verbatim>\<open>null\<close> nor missing, a \<^verbatim>\<open>moves\<close> that is a finite number) is the
  value derived from the snapshot's board.
\<close>

definition snapshot_agrees :: "jsval \<Rightarrow> bool" where
  "snapshot_agrees loaded =
     (case js_prop loaded ''board'' of
        Arr bd \<Rightarrow>
          (nullish (js_prop loaded ''winner'')
             \<or> js_prop loaded ''winner'' = calculateWinner bd)
          \<and> (nullish (js_prop loaded ''is_draw'')
             \<or> js_prop loaded ''is_draw''
                 = Bool (\<not> truthy (calculateWinner bd) \<and> length (filter truthy bd) = 9))
          \<and> (case js_prop loaded ''moves'' of
               Num (Finite r) \<Rightarrow> r = of_nat (length (filter truthy bd))
             | _ \<Rightarrow> True)
      | _ \<Rightarrow> True)"

text \<open>
  The states the application can be in when every snapshot it loads agrees with its own
  board: the initial state, and the states after a click, a reset or such a load.
\<close>

inductive reachable :: "(jsval \<Rightarrow> string) \<Rightarrow> game \<Rightarrow> bool"
  for ts :: "jsval \<Rightarrow> string" where
  init: "reachable ts (createEmptyGameState now)"
| click: "reachable ts g \<Longrightarrow> reachable ts (handleSquareClick ts now g i)"
| reset: "reachable ts g \<Longrightarrow> reachable ts (handleReset now g)"
| load: "reachable ts g \<Longrightarrow> snapshot_agrees loaded
           \<Longrightarrow> reachable ts (applyLoaded ts now g loaded)"

section \<open>Concrete boards, snapshots and networks\<close>

text \<open>
  On the boards below every mark is a string, so the runtime's conversion of numbers,
  arrays and objects is never consulted; this function stands for it.
\<close>

definition ts_unused :: "jsval \<Rightarrow> string" where
  "ts_unused v = []"

definition board_two_lines :: "jsval list" where
  "board_two_lines =
     [Str ''X'', Str ''X'', Str ''X'',
      Str ''O'', Str ''O'', Str ''O'',
      Null, Null, Null]"

definition board_top_row :: "jsval list" where
  "board_top_row =
     [Str ''X'', Str ''X'', Str ''X'',
      Str ''O'', Str ''O'', Null,
      Null, Null, Null]"

definition board_full_no_line :: "jsval list" where
  "board_full_no_line =
     [Str ''X'', Str ''O'', Str ''X'',
      Str ''X'', Str ''O'', Str ''O'',
      Str ''O'', Str ''X'', Str ''X'']"

definition snapshot_disagreeing :: jsval where
  "snapshot_disagreeing =
     Obj [(''board'', Arr (replicate 9 Null)), (''next_player'', Str ''X''),
          (''winner'', Str ''X''), (''is_draw'', Bool True), (''moves'', Num (Finite 5))]"

definition snapshot_board_only :: jsval where
  "snapshot_board_only = Obj [(''board'', Arr board_top_row), (''next_player'', Str ''O'')]"

definition snapshot_short_board :: jsval where
  "snapshot_short_board = Obj [(''board'', Arr [Str ''X'', Null, Null])]"

definition api_on :: api where
  "api_on = useOptionalGameApi (Some ''http://localhost:3001/'') None"

definition fetch_rejects :: "string \<Rightarrow> js_error + response" where
  "fetch_rejects url = Inl Thrown"

definition fetch_status_500 :: "string \<Rightarrow> js_error + response" where
  "fetch_status_500 url = Inr \<lparr> ok = False, json = Inr (Str ''Internal Server Error'') \<rparr>"

definition fetch_returns :: "jsval \<Rightarrow> string \<Rightarrow> js_error + response" where
  "fetch_returns v url = Inr \<lparr> ok = True, json = Inr v \<rparr>"

definition state_initial :: game where
  "state_initial = createEmptyGameState ''2026-01-01T00:00:00.000Z''"

definition state_after_centre :: game where
  "state_after_centre = handleSquareClick ts_unused ''2026-01-01T00:00:01.000Z'' state_initial 4"

definition state_after_disagreeing_load :: game where
  "state_after_disagreeing_load =
     applyLoaded ts_unused ''2026-01-01T00:00:01.000Z'' state_initial snapshot_disagreeing"

definition state_after_board_only_load :: game where
  "state_after_board_only_load =
     applyLoaded ts_unused ''2026-01-01T00:00:01.000Z'' state_initial snapshot_board_only"

section \<open>The evaluator returns the first filled line\<close>

lemma scanLines_Cons:
  "scanLines bd (l # ls) = (if line_filled bd l then line_mark bd l else scanLines bd ls)"
  by (cases l) (simp add: line_filled_def line_mark_def Let_def)

lemma scanLines_find:
  "scanLines bd ls =
     (case find (line_filled bd) ls of None \<Rightarrow> Null | Some l \<Rightarrow> line_mark bd l)"
  by (induction ls) (simp_all add: scanLines_Cons del: scanLines.simps(2))

lemma line_filled_truthy: "line_filled bd l \<Longrightarrow> truthy (line_mark bd l)"
  by (cases l) (simp add: line_filled_def line_mark_def)

lemma scanLines_truthy_or_null: "truthy (scanLines bd ls) \<or> scanLines bd ls = Null"
  by (induction ls)
    (simp_all add: scanLines_Cons line_filled_truthy del: scanLines.simps(2))

lemma calculateWinner_truthy_or_null:
  "truthy (calculateWinner bd) \<or> calculateWinner bd = Null"
  by (simp add: calculateWinner_def scanLines_truthy_or_null)

text \<open>
  C7. \<^verbatim>\<open>calculateWinner\<close> goes through the eight triples, rows first, then columns,
  then the two diagonals, and returns the mark of the first of them whose three cells
  hold the same non-empty mark, \<^verbatim>\<open>null\<close> when there is none.
\<close>

theorem calculateWinner_first_line:
  "calculateWinner bd =
     (case find (line_filled bd)
        [(0, 1, 2), (3, 4, 5), (6, 7, 8),
         (0, 3, 6), (1, 4, 7), (2, 5, 8),
         (0, 4, 8), (2, 4, 6)]
      of None \<Rightarrow> Null | Some (a, b, c) \<Rightarrow> js_get bd a)"
  unfolding calculateWinner_def scanLines_find lines_def line_mark_def
  by (simp split: option.splits)

text \<open>
  C1 as it is written, that the evaluator returns the mark of any line that holds three
  equal non-empty marks, fails on a board with two such lines of different marks: the
  middle row of this board holds three \<^verbatim>\<open>"O"\<close>, and the evaluator returns the
  \<^verbatim>\<open>"X"\<close> of the top row, which it examines first.
\<close>

theorem calculateWinner_second_line_counterexample:
  "length board_two_lines = 9
   \<and> (3, 4, 5) \<in> set lines
   \<and> line_filled board_two_lines (3, 4, 5)
   \<and> line_mark board_two_lines (3, 4, 5) = Str ''O''
   \<and> calculateWinner board_two_lines = Str ''X''
   \<and> calculateWinner board_two_lines \<noteq> line_mark board_two_lines (3, 4, 5)"
  by (simp add: board_two_lines_def lines_def line_filled_def line_mark_def js_get_def
      calculateWinner_def)

text \<open>
  C1, amended. On a board where one of the eight lines holds three equal non-empty
  marks, \<^verbatim>\<open>calculateWinner\<close> returns the mark of the first such line in the order
  rows, columns, diagonals; it returns the mark of the given line whenever every line
  that holds three equal non-empty marks holds that same mark.
\<close>

theorem calculateWinner_line_mark:
  assumes "l \<in> set lines" and "line_filled bd l"
  shows "(\<exists>l'. find (line_filled bd)
                [(0, 1, 2), (3, 4, 5), (6, 7, 8),
                 (0, 3, 6), (1, 4, 7), (2, 5, 8),
                 (0, 4, 8), (2, 4, 6)] = Some l'
              \<and> line_filled bd l'
              \<and> calculateWinner bd = line_mark bd l')
       \<and> ((\<forall>l' \<in> set lines. line_filled bd l' \<longrightarrow> line_mark bd l' = line_mark bd l)
            \<longrightarrow> calculateWinner bd = line_mark bd l)"
proof -
  have "find (line_filled bd) lines \<noteq> None"
  proof
    assume "find (line_filled bd) lines = None"
    then have "\<not> (\<exists>x. x \<in> set lines \<and> line_filled bd x)"
      by (rule iffD1 [OF find_None_iff])
    with assms show False
      by blast
  qed
  then obtain l' where first: "find (line_filled bd) lines = Some l'"
    by blast
  then have filled: "line_filled bd l'" and mem: "l' \<in> set lines"
    by (auto simp: find_Some_iff)
  from first have res: "calculateWinner bd = line_mark bd l'"
    by (simp add: calculateWinner_def scanLines_find)
  from first filled res have "\<exists>l'. find (line_filled bd) lines = Some l'
      \<and> line_filled bd l' \<and> calculateWinner bd = line_mark bd l'"
    by blast
  moreover from filled mem res
  have "(\<forall>l' \<in> set lines. line_filled bd l' \<longrightarrow> line_mark bd l' = line_mark bd l)
          \<longrightarrow> calculateWinner bd = line_mark bd l"
    by simp
  ultimately show ?thesis
    unfolding lines_def by simp
qed

theorem calculateWinner_line_mark_witness:
  "length board_two_lines = 9
   \<and> (3, 4, 5) \<in> set lines
   \<and> line_filled board_two_lines (3, 4, 5)
   \<and> find (line_filled board_two_lines)
        [(0, 1, 2), (3, 4, 5), (6, 7, 8),
         (0, 3, 6), (1, 4, 7), (2, 5, 8),
         (0, 4, 8), (2, 4, 6)] = Some (0, 1, 2)
   \<and> calculateWinner board_two_lines = Str ''X''
   \<and> length board_top_row = 9
   \<and> (0, 1, 2) \<in> set lines
   \<and> line_filled board_top_row (0, 1, 2)
   \<and> filter (line_filled board_top_row) lines = [(0, 1, 2)]
   \<and> line_mark board_top_row (0, 1, 2) = Str ''X''
   \<and> calculateWinner board_top_row = Str ''X''"
proof -
  have len2: "length board_two_lines = 9"
    by (simp add: board_two_lines_def)
  have mem2: "(3, 4, 5) \<in> set lines"
    by (simp add: lines_def)
  have filled2: "line_filled board_two_lines (3, 4, 5)"
    by (simp add: line_filled_def board_two_lines_def js_get_def)
  have first2: "find (line_filled board_two_lines)
        [(0, 1, 2), (3, 4, 5), (6, 7, 8),
         (0, 3, 6), (1, 4, 7), (2, 5, 8),
         (0, 4, 8), (2, 4, 6)] = Some (0, 1, 2)"
    by (simp add: line_filled_def board_two_lines_def js_get_def)
  have mark2: "line_mark board_two_lines (0, 1, 2) = Str ''X''"
    by (simp add: line_mark_def board_two_lines_def js_get_def)
  from calculateWinner_line_mark [OF mem2 filled2] first2 mark2
  have res2: "calculateWinner board_two_lines = Str ''X''"
    by auto
  have len: "length board_top_row = 9"
    by (simp add: board_top_row_def)
  have mem: "(0, 1, 2) \<in> set lines"
    by (simp add: lines_def)
  have filled: "line_filled board_top_row (0, 1, 2)"
    by (simp add: line_filled_def board_top_row_def js_get_def)
  have only: "\<forall>l' \<in> set lines. line_filled board_top_row l'
         \<longrightarrow> line_mark board_top_row l' = line_mark board_top_row (0, 1, 2)"
    by (simp add: lines_def line_filled_def line_mark_def board_top_row_def js_get_def)
  have mark: "line_mark board_top_row (0, 1, 2) = Str ''X''"
    by (simp add: line_mark_def board_top_row_def js_get_def)
  have single: "filter (line_filled board_top_row) lines = [(0, 1, 2)]"
    by (simp add: lines_def line_filled_def board_top_row_def js_get_def)
  from calculateWinner_line_mark [OF mem filled] only mark
  have res: "calculateWinner board_top_row = Str ''X''"
    by simp
  from len2 mem2 filled2 first2 res2 len mem filled single mark res show ?thesis
    by blast
qed

section \<open>Derived status\<close>

lemma d_winner_deriveStatus: "d_winner (deriveStatus ts bd np) = calculateWinner bd"
  using calculateWinner_truthy_or_null [of bd] by (auto simp: deriveStatus_def Let_def)

lemma d_isDraw_deriveStatus:
  "d_isDraw (deriveStatus ts bd np)
     = (\<not> truthy (calculateWinner bd) \<and> length (filter truthy bd) = 9)"
  by (simp add: deriveStatus_def Let_def)

lemma d_moves_deriveStatus: "d_moves (deriveStatus ts bd np) = length (filter truthy bd)"
  by (simp add: deriveStatus_def Let_def)

lemmas derived_fields = d_winner_deriveStatus d_isDraw_deriveStatus d_moves_deriveStatus

text \<open>
  C4. On a board of nine cells, all of them non-empty, on which \<^verbatim>\<open>calculateWinner\<close>
  returns \<^verbatim>\<open>null\<close>, \<^verbatim>\<open>deriveStatus\<close> reports a draw: \<^verbatim>\<open>isDraw\<close> true, \<^verbatim>\<open>winner\<close>
  \<^verbatim>\<open>null\<close> and the status \<^verbatim>\<open>"Draw"\<close>, whoever is next.
\<close>

theorem deriveStatus_draw:
  assumes "length bd = 9" and "\<forall>cell \<in> set bd. truthy cell" and "calculateWinner bd = Null"
  shows "d_isDraw (deriveStatus ts bd np)
       \<and> d_winner (deriveStatus ts bd np) = Null
       \<and> d_status (deriveStatus ts bd np) = ''Draw''"
proof -
  from assms(2) have "filter truthy bd = bd"
    by (simp add: filter_id_conv)
  with assms(1,3) show ?thesis
    by (simp add: deriveStatus_def)
qed

theorem deriveStatus_draw_witness:
  "length board_full_no_line = 9
   \<and> list_all truthy board_full_no_line
   \<and> calculateWinner board_full_no_line = Null
   \<and> d_isDraw (deriveStatus ts_unused board_full_no_line ''O'')
   \<and> d_winner (deriveStatus ts_unused board_full_no_line ''O'') = Null
   \<and> d_status (deriveStatus ts_unused board_full_no_line ''O'') = ''Draw''"
proof -
  have len: "length board_full_no_line = 9"
    by (simp add: board_full_no_line_def)
  have full: "\<forall>cell \<in> set board_full_no_line. truthy cell"
    by (simp add: board_full_no_line_def)
  have none: "calculateWinner board_full_no_line = Null"
    by (simp add: calculateWinner_def lines_def board_full_no_line_def js_get_def)
  from deriveStatus_draw [OF len full none, of ts_unused "''O''"] len full none
  show ?thesis
    by (simp add: list_all_iff)
qed

section \<open>Clicks and reset\<close>

lemma js_get_js_set_same: "js_get (js_set xs i v) i = v"
  by (simp add: js_get_def js_set_def nth_append)

lemma js_get_js_set_other: "j \<noteq> i \<Longrightarrow> js_get (js_set xs i v) j = js_get xs j"
  by (auto simp: js_get_def js_set_def nth_append)

lemma replicate_nine: "replicate 9 x = [x, x, x, x, x, x, x, x, x]"
  by (simp add: numeral_eq_Suc)

lemma state_after_centre_eval:
  "state_after_centre =
     \<lparr> board = [Null, Null, Null, Null, Str ''X'', Null, Null, Null, Null],
       nextPlayer = ''O'',
       status = ''Next player: O'',
       winner = Null,
       isDraw = False,
       moves = 1,
       updatedAt = Str ''2026-01-01T00:00:01.000Z'' \<rparr>"
  by (simp add: state_after_centre_def state_initial_def handleSquareClick_def
      createEmptyGameState_def deriveStatus_def calculateWinner_def lines_def
      js_get_def js_set_def Let_def replicate_nine)

text \<open>
  C2. A click on a cell that is taken, or in a state that has a winner or is a draw,
  returns the state it was given, every field of it; the handler has no statement that
  can throw (it reads a cell of an array and returns).
\<close>

theorem handleSquareClick_ignores_invalid:
  assumes "truthy (js_get (board g) i) \<or> truthy (winner g) \<or> isDraw g"
  shows "handleSquareClick ts now g i = g"
  using assms by (auto simp: handleSquareClick_def)

theorem handleSquareClick_ignores_invalid_witness:
  "truthy (js_get (board state_after_centre) 4)
   \<and> handleSquareClick ts_unused ''2026-01-01T00:00:02.000Z'' state_after_centre 4
       = state_after_centre
   \<and> truthy (winner state_after_disagreeing_load)
   \<and> handleSquareClick ts_unused ''2026-01-01T00:00:02.000Z'' state_after_disagreeing_load 0
       = state_after_disagreeing_load"
proof -
  have taken: "truthy (js_get (board state_after_centre) 4)"
    by (simp add: state_after_centre_eval js_get_def)
  have won: "truthy (winner state_after_disagreeing_load)"
    by (simp add: state_after_disagreeing_load_def snapshot_disagreeing_def applyLoaded_def
        js_prop_def nullish_def Let_def)
  from taken won
    handleSquareClick_ignores_invalid
      [of state_after_centre 4 ts_unused "''2026-01-01T00:00:02.000Z''"]
    handleSquareClick_ignores_invalid
      [of state_after_disagreeing_load 0 ts_unused "''2026-01-01T00:00:02.000Z''"]
  show ?thesis
    by blast
qed

text \<open>
  C3. In a state with no winner and no draw, a click on an empty cell stores the mark of
  the player to move in that cell and leaves every other cell as it was, makes \<^verbatim>\<open>"O"\<close>
  the next player after \<^verbatim>\<open>"X"\<close> and \<^verbatim>\<open>"X"\<close> after \<^verbatim>\<open>"O"\<close>, and sets \<^verbatim>\<open>winner\<close>,
  \<^verbatim>\<open>isDraw\<close>, \<^verbatim>\<open>moves\<close> and \<^verbatim>\<open>status\<close> to what \<^verbatim>\<open>deriveStatus\<close> computes from the
  new board and the new next player.
\<close>

theorem handleSquareClick_valid_move:
  assumes "\<not> truthy (winner g)" and "\<not> isDraw g" and "\<not> truthy (js_get (board g) i)"
  shows "(let g' = handleSquareClick ts now g i;
              d = deriveStatus ts (board g') (nextPlayer g')
          in board g' = js_set (board g) i (Str (nextPlayer g))
           \<and> js_get (board g') i = Str (nextPlayer g)
           \<and> (\<forall>j. j \<noteq> i \<longrightarrow> js_get (board g') j = js_get (board g) j)
           \<and> nextPlayer g' = (if nextPlayer g = ''X'' then ''O'' else ''X'')
           \<and> winner g' = d_winner d
           \<and> isDraw g' = d_isDraw d
           \<and> moves g' = of_nat (d_moves d)
           \<and> status g' = d_status d)"
  using assms
  by (simp add: handleSquareClick_def Let_def js_get_js_set_same js_get_js_set_other)

theorem handleSquareClick_valid_move_witness:
  "\<not> truthy (winner state_after_centre)
   \<and> \<not> isDraw state_after_centre
   \<and> \<not> truthy (js_get (board state_after_centre) 0)
   \<and> js_get (board (handleSquareClick ts_unused [] state_after_centre 0)) 0 = Str ''O''
   \<and> js_get (board (handleSquareClick ts_unused [] state_after_centre 0)) 4 = Str ''X''
   \<and> nextPlayer (handleSquareClick ts_unused [] state_after_centre 0) = ''X''"
proof -
  have w: "\<not> truthy (winner state_after_centre)"
    and d: "\<not> isDraw state_after_centre"
    and e: "\<not> truthy (js_get (board state_after_centre) 0)"
    by (simp_all add: state_after_centre_eval js_get_def)
  have np: "nextPlayer state_after_centre = ''O''"
    and c4: "js_get (board state_after_centre) 4 = Str ''X''"
    by (simp_all add: state_after_centre_eval js_get_def)
  note move = handleSquareClick_valid_move [OF w d e, of ts_unused "[]", unfolded Let_def]
  from move
  have c0': "js_get (board (handleSquareClick ts_unused [] state_after_centre 0)) 0
          = Str (nextPlayer state_after_centre)"
    by blast
  from move
  have "\<forall>j. j \<noteq> 0 \<longrightarrow> js_get (board (handleSquareClick ts_unused [] state_after_centre 0)) j
          = js_get (board state_after_centre) j"
    by blast
  from this [rule_format, of 4]
  have c4': "js_get (board (handleSquareClick ts_unused [] state_after_centre 0)) 4
          = js_get (board state_after_centre) 4"
    by simp
  from move
  have np': "nextPlayer (handleSquareClick ts_unused [] state_after_centre 0)
          = (if nextPlayer state_after_centre = ''X'' then ''O'' else ''X'')"
    by blast
  from w d e np c4 c0' c4' np' show ?thesis
    by simp
qed

text \<open>
  C5. \<^verbatim>\<open>handleReset\<close>, from any state, gives the state with nine empty cells,
  \<^verbatim>\<open>"X"\<close> to move, no winner, no draw, no moves and the status \<^verbatim>\<open>"Next player: X"\<close>.
\<close>

theorem handleReset_state:
  "board (handleReset now g) = [Null, Null, Null, Null, Null, Null, Null, Null, Null]
   \<and> nextPlayer (handleReset now g) = ''X''
   \<and> winner (handleReset now g) = Null
   \<and> isDraw (handleReset now g) = False
   \<and> moves (handleReset now g) = 0
   \<and> status (handleReset now g) = ''Next player: X''"
  by (simp add: handleReset_def createEmptyGameState_def replicate_nine)

section \<open>The invariant of the data model\<close>

lemma calculateWinner_empty: "calculateWinner (replicate 9 Null) = Null"
  by (simp add: calculateWinner_def lines_def js_get_def)

lemma invariant_init: "invariant ts (createEmptyGameState now)"
  by (simp add: invariant_def derived_fields createEmptyGameState_def calculateWinner_empty)

lemma invariant_click: "invariant ts g \<Longrightarrow> invariant ts (handleSquareClick ts now g i)"
  by (simp add: invariant_def derived_fields handleSquareClick_def Let_def)

lemma js_prop_truthy: "js_prop loaded k = Arr bd \<Longrightarrow> truthy loaded"
  by (cases loaded) (simp_all add: js_prop_def)

lemma applyLoaded_unchanged:
  "\<not> (\<exists>bd. js_prop loaded ''board'' = Arr bd \<and> length bd = 9)
     \<Longrightarrow> applyLoaded ts now g loaded = g"
  by (auto simp: applyLoaded_def split: jsval.splits)

lemma applyLoaded_board:
  "js_prop loaded ''board'' = Arr bd \<Longrightarrow> length bd = 9
     \<Longrightarrow> board (applyLoaded ts now g loaded) = bd"
  by (simp add: applyLoaded_def Let_def js_prop_truthy)

lemma invariant_load:
  assumes "invariant ts g" and "snapshot_agrees loaded"
  shows "invariant ts (applyLoaded ts now g loaded)"
proof (cases "\<exists>bd. js_prop loaded ''board'' = Arr bd \<and> length bd = 9")
  case False
  then have "applyLoaded ts now g loaded = g"
    by (rule applyLoaded_unchanged)
  with assms(1) show ?thesis by simp
next
  case True
  then obtain bd where bd: "js_prop loaded ''board'' = Arr bd" "length bd = 9"
    by blast
  from bd(1) have tr: "truthy loaded"
    by (rule js_prop_truthy)
  from assms(2) bd(1)
  have w: "nullish (js_prop loaded ''winner'')
             \<or> js_prop loaded ''winner'' = calculateWinner bd"
    and dr: "nullish (js_prop loaded ''is_draw'')
             \<or> js_prop loaded ''is_draw''
                 = Bool (\<not> truthy (calculateWinner bd) \<and> length (filter truthy bd) = 9)"
    and mv: "(case js_prop loaded ''moves'' of
               Num (Finite r) \<Rightarrow> r = of_nat (length (filter truthy bd))
             | _ \<Rightarrow> True)"
    by (simp_all add: snapshot_agrees_def)
  have mv': "(case js_prop loaded ''moves'' of
               Num (Finite r) \<Rightarrow> r
             | _ \<Rightarrow> of_nat (d_moves (deriveStatus ts bd np)))
           = of_nat (length (filter truthy bd))" for np
    using mv by (simp add: d_moves_deriveStatus split: jsval.splits jsnum.splits)
  let ?g = "applyLoaded ts now g loaded"
  have b: "board ?g = bd"
    using bd by (rule applyLoaded_board)
  have m: "moves ?g = of_nat (length (filter truthy bd))"
    using bd tr by (simp add: applyLoaded_def Let_def mv')
  have w': "winner ?g = calculateWinner bd"
    using bd tr w by (auto simp: applyLoaded_def Let_def d_winner_deriveStatus nullish_def)
  have dr': "isDraw ?g = (\<not> truthy (calculateWinner bd) \<and> length (filter truthy bd) = 9)"
    using bd tr dr by (auto simp: applyLoaded_def Let_def d_isDraw_deriveStatus)
  show ?thesis
    unfolding invariant_def derived_fields b m w' dr' by simp
qed

text \<open>
  C6 as it is written, with every successfully loaded snapshot among the ways to reach a
  state, fails: the load effect keeps a snapshot's own \<^verbatim>\<open>winner\<close>, \<^verbatim>\<open>is_draw\<close> and
  \<^verbatim>\<open>moves\<close> where it has them and derives only what is missing. Applied to the initial
  state, a snapshot with an empty board that names a winner, a draw and five moves gives
  a state with all three on an empty board.
\<close>

theorem applyLoaded_disagreeing_counterexample:
  "board state_after_disagreeing_load = replicate 9 Null
   \<and> winner state_after_disagreeing_load = Str ''X''
   \<and> isDraw state_after_disagreeing_load
   \<and> moves state_after_disagreeing_load = 5
   \<and> \<not> invariant ts_unused state_after_disagreeing_load"
  by (simp add: state_after_disagreeing_load_def snapshot_disagreeing_def applyLoaded_def
      js_prop_def nullish_def invariant_def Let_def)

text \<open>
  C6, amended. Every state reached from the initial state by clicks, resets and loads of
  snapshots that agree with their own board satisfies the invariant: \<^verbatim>\<open>winner\<close> and
  \<^verbatim>\<open>isDraw\<close> are not both set, both are the values derived from the board, and
  \<^verbatim>\<open>moves\<close> is the number of non-empty cells.
\<close>

theorem reachable_invariant: "reachable ts g \<Longrightarrow> invariant ts g"
proof (induction rule: reachable.induct)
  case (init now)
  show ?case by (rule invariant_init)
next
  case (click g now i)
  then show ?case by (simp add: invariant_click)
next
  case (reset g now)
  show ?case by (simp add: handleReset_def invariant_init)
next
  case (load g loaded now)
  then show ?case by (simp add: invariant_load)
qed

theorem reachable_invariant_witness:
  "reachable ts_unused state_after_board_only_load
   \<and> board state_after_board_only_load = board_top_row
   \<and> invariant ts_unused state_after_board_only_load"
proof -
  have agrees: "snapshot_agrees snapshot_board_only"
    by (simp add: snapshot_agrees_def snapshot_board_only_def js_prop_def nullish_def)
  have r: "reachable ts_unused state_after_board_only_load"
    unfolding state_after_board_only_load_def state_initial_def
    by (rule reachable.load [OF reachable.init agrees])
  have b: "board state_after_board_only_load = board_top_row"
    unfolding state_after_board_only_load_def
    by (rule applyLoaded_board)
       (simp_all add: snapshot_board_only_def js_prop_def board_top_row_def)
  from reachable_invariant [OF r] r b show ?thesis
    by blast
qed

section \<open>Loading from the backend\<close>

lemma api_on_eval: "api_on = \<lparr> enabled = True, baseUrl = ''http://localhost:3001'' \<rparr>"
  by (simp add: api_on_def useOptionalGameApi_def js_or_string_def
      strip_trailing_slashes_def Let_def)

lemma loadLatest_fetch_returns: "loadLatest api_on (fetch_returns v) = Inr v"
  by (simp add: loadLatest_def try_catch_def fetch_returns_def api_on_eval)

text \<open>
  C8. \<^verbatim>\<open>loadLatest\<close> always returns a value and never an error, and the value is
  \<^verbatim>\<open>null\<close> when the backend is not enabled, when the request is rejected, when the
  response is not \<^verbatim>\<open>ok\<close>, and also when its body cannot be read as JSON; with
  neither environment variable set the backend is not enabled.
\<close>

theorem loadLatest_never_throws:
  "(\<exists>v. loadLatest a fetch = Inr v)
   \<and> (\<not> enabled a \<longrightarrow> loadLatest a fetch = Inr Null)
   \<and> ((\<exists>e. fetch (baseUrl a @ ''/api/games/latest'') = Inl e)
        \<longrightarrow> loadLatest a fetch = Inr Null)
   \<and> ((\<exists>res. fetch (baseUrl a @ ''/api/games/latest'') = Inr res \<and> \<not> ok res)
        \<longrightarrow> loadLatest a fetch = Inr Null)
   \<and> ((\<exists>res e. fetch (baseUrl a @ ''/api/games/latest'') = Inr res \<and> json res = Inl e)
        \<longrightarrow> loadLatest a fetch = Inr Null)
   \<and> \<not> enabled (useOptionalGameApi None None)"
proof -
  have no_config: "\<not> enabled (useOptionalGameApi None None)"
    by (simp add: useOptionalGameApi_def js_or_string_def strip_trailing_slashes_def)
  have returns: "\<exists>v. loadLatest a fetch = Inr v"
  proof (cases "fetch (baseUrl a @ ''/api/games/latest'')")
    case (Inl e)
    then show ?thesis by (simp add: loadLatest_def try_catch_def)
  next
    case (Inr res)
    then show ?thesis
      by (cases "json res") (simp_all add: loadLatest_def try_catch_def)
  qed
  have failures: "loadLatest a fetch = Inr Null"
    if "\<not> enabled a
        \<or> (\<exists>e. fetch (baseUrl a @ ''/api/games/latest'') = Inl e)
        \<or> (\<exists>res. fetch (baseUrl a @ ''/api/games/latest'') = Inr res \<and> \<not> ok res)
        \<or> (\<exists>res e. fetch (baseUrl a @ ''/api/games/latest'') = Inr res \<and> json res = Inl e)"
    using that by (auto simp: loadLatest_def try_catch_def)
  from no_config returns failures show ?thesis
    by blast
qed

theorem loadLatest_never_throws_witness:
  "\<not> enabled (useOptionalGameApi (Some []) None)
   \<and> loadLatest (useOptionalGameApi (Some []) None) fetch_rejects = Inr Null
   \<and> enabled api_on
   \<and> fetch_rejects (baseUrl api_on @ ''/api/games/latest'') = Inl Thrown
   \<and> loadLatest api_on fetch_rejects = Inr Null
   \<and> (\<exists>res. fetch_status_500 (baseUrl api_on @ ''/api/games/latest'') = Inr res \<and> \<not> ok res)
   \<and> loadLatest api_on fetch_status_500 = Inr Null"
proof -
  have off: "\<not> enabled (useOptionalGameApi (Some []) None)"
    by (simp add: useOptionalGameApi_def js_or_string_def strip_trailing_slashes_def)
  have on: "enabled api_on"
    by (simp add: api_on_eval)
  have rej: "fetch_rejects (baseUrl api_on @ ''/api/games/latest'') = Inl Thrown"
    by (simp add: fetch_rejects_def)
  have bad: "\<exists>res. fetch_status_500 (baseUrl api_on @ ''/api/games/latest'') = Inr res
               \<and> \<not> ok res"
    by (simp add: fetch_status_500_def)
  from off on rej bad
    loadLatest_never_throws [of "useOptionalGameApi (Some []) None" fetch_rejects]
    loadLatest_never_throws [of api_on fetch_rejects]
    loadLatest_never_throws [of api_on fetch_status_500]
  show ?thesis
    by blast
qed

text \<open>
  C9. What \<^verbatim>\<open>loadLatest\<close> returned replaces the game state only when its \<^verbatim>\<open>board\<close>
  is an array of exactly nine elements: for every other value (\<^verbatim>\<open>null\<close>, a value
  without \<^verbatim>\<open>board\<close>, a \<^verbatim>\<open>board\<close> that is no array or has another length) the load
  effect leaves the state as it was; for a board of nine, unless the effect was
  cancelled, that board becomes the board of the state.
\<close>

theorem run_replaces_only_nine_cells:
  assumes "loadLatest a fetch = Inr loaded"
  shows "(\<not> (\<exists>bd. js_prop loaded ''board'' = Arr bd \<and> length bd = 9)
            \<longrightarrow> run ts now a fetch cancelled g = Inr g)
       \<and> (\<forall>bd. js_prop loaded ''board'' = Arr bd \<and> length bd = 9
                  \<and> enabled a \<and> \<not> cancelled
            \<longrightarrow> (\<exists>g'. run ts now a fetch cancelled g = Inr g' \<and> board g' = bd))"
  using assms by (simp add: run_def applyLoaded_unchanged applyLoaded_board)

theorem run_replaces_only_nine_cells_witness:
  "loadLatest api_on (fetch_returns snapshot_short_board) = Inr snapshot_short_board
   \<and> js_prop snapshot_short_board ''board'' = Arr [Str ''X'', Null, Null]
   \<and> run ts_unused [] api_on (fetch_returns snapshot_short_board) False state_after_centre
       = Inr state_after_centre
   \<and> loadLatest api_on (fetch_returns snapshot_board_only) = Inr snapshot_board_only
   \<and> js_prop snapshot_board_only ''board'' = Arr board_top_row
   \<and> length board_top_row = 9
   \<and> enabled api_on
   \<and> (\<exists>g'. run ts_unused [] api_on (fetch_returns snapshot_board_only) False state_after_centre
               = Inr g' \<and> board g' = board_top_row)"
proof -
  have short: "\<not> (\<exists>bd. js_prop snapshot_short_board ''board'' = Arr bd \<and> length bd = 9)"
    by (simp add: snapshot_short_board_def js_prop_def)
  have nine: "js_prop snapshot_board_only ''board'' = Arr board_top_row"
    "length board_top_row = 9"
    by (simp_all add: snapshot_board_only_def js_prop_def board_top_row_def)
  have on: "enabled api_on"
    by (simp add: api_on_eval)
  have three: "js_prop snapshot_short_board ''board'' = Arr [Str ''X'', Null, Null]"
    by (simp add: snapshot_short_board_def js_prop_def)
  from short three nine on
    run_replaces_only_nine_cells
      [OF loadLatest_fetch_returns [of snapshot_short_board],
       of ts_unused "[]" False state_after_centre]
    run_replaces_only_nine_cells
      [OF loadLatest_fetch_returns [of snapshot_board_only],
       of ts_unused "[]" False state_after_centre]
  show ?thesis
    by (simp add: loadLatest_fetch_returns)
qed

lemma strict_eq_Str: "strict_eq v (Str s) = (v = Str s)"
  by (cases v) auto

text \<open>
  C10. When a loaded snapshot is applied (its \<^verbatim>\<open>board\<close> is an array of nine), the next
  player of the new state is \<^verbatim>\<open>"O"\<close> exactly when the snapshot's \<^verbatim>\<open>next_player\<close> is
  the string \<^verbatim>\<open>"O"\<close>, and \<^verbatim>\<open>"X"\<close> for every other value, a missing one included.
\<close>

theorem applyLoaded_nextPlayer:
  assumes "js_prop loaded ''board'' = Arr bd" and "length bd = 9"
  shows "nextPlayer (applyLoaded ts now g loaded)
           = (if js_prop loaded ''next_player'' = Str ''O'' then ''O'' else ''X'')"
  using assms by (simp add: applyLoaded_def Let_def js_prop_truthy strict_eq_Str)

theorem applyLoaded_nextPlayer_witness:
  "js_prop snapshot_board_only ''board'' = Arr board_top_row
   \<and> length board_top_row = 9
   \<and> js_prop snapshot_board_only ''next_player'' = Str ''O''
   \<and> nextPlayer (applyLoaded ts_unused [] state_initial snapshot_board_only) = ''O''
   \<and> js_prop snapshot_disagreeing ''board'' = Arr (replicate 9 Null)
   \<and> js_prop snapshot_disagreeing ''next_player'' = Str ''X''
   \<and> nextPlayer (applyLoaded ts_unused [] state_initial snapshot_disagreeing) = ''X''"
proof -
  have b1: "js_prop snapshot_board_only ''board'' = Arr board_top_row"
    and l1: "length board_top_row = 9"
    and n1: "js_prop snapshot_board_only ''next_player'' = Str ''O''"
    by (simp_all add: snapshot_board_only_def js_prop_def board_top_row_def)
  have b2: "js_prop snapshot_disagreeing ''board'' = Arr (replicate 9 Null)"
    and l2: "length (replicate 9 Null :: jsval list) = 9"
    and n2: "js_prop snapshot_disagreeing ''next_player'' = Str ''X''"
    by (simp_all add: snapshot_disagreeing_def js_prop_def)
  from applyLoaded_nextPlayer [OF b1 l1, of ts_unused "[]" state_initial]
    applyLoaded_nextPlayer [OF b2 l2, of ts_unused "[]" state_initial]
    b1 l1 n1 b2 n2
  show ?thesis
    by simp
qed

end
